theory Spec2Isabelle
  imports Main "HOL-Library.Word" "HOL-Library.Log_Nat" "HOL-Library.Sublist"
begin

section \<open>The monitoring service of springboot-app-monitor\<close>

text \<open>
  This theory embeds \<^verbatim>\<open>internal/service/monitor_service.go\<close>: the configuration
  record, one monitoring cycle (\<^verbatim>\<open>monitorHealthAndMetrics\<close>), the body of the
  goroutine the cycle starts for every monitored URL, and the alert dispatch
  (\<^verbatim>\<open>handleAlert\<close>, \<^verbatim>\<open>sendEmail\<close>). Everything the Go code does to the outside world
  (HTTP requests, external commands, mail, log lines, sleeping, starting goroutines) is
  an event of a trace; everything the outside world answers is read from a record of
  observations. \<^verbatim>\<open>Start\<close>, which runs one cycle at once and one more at every tick of
  the ticker, is left out: the properties below are properties of one cycle.
\<close>

subsection \<open>Go's \<^verbatim>\<open>float64\<close>\<close>

text \<open>
  The thresholds are compared in \<^verbatim>\<open>float64\<close> arithmetic, and the messages print
  \<^verbatim>\<open>float64\<close> values. A \<^verbatim>\<open>float64\<close> is an IEEE 754 binary64 value: a NaN, a signed
  infinity, or a finite value \<open>(-1)^s * m * 2^e\<close> with \<open>m < 2^53\<close> and
  \<open>-1074 \<le> e \<le> 971\<close>, where \<open>m < 2^52\<close> only for \<open>e = -1074\<close> (zero and the subnormals).
  The sign of a zero is kept. Arithmetic rounds to nearest, ties to even.
\<close>

datatype float64 = NaN | Inf bool | Fin bool nat int

text \<open>The fraction \<open>(n / d) / 2^e\<close> as a numerator and a denominator.\<close>

definition f64_scaled :: "nat \<Rightarrow> nat \<Rightarrow> int \<Rightarrow> nat \<times> nat" where
  "f64_scaled n d e = (if 0 \<le> e then (n, d * 2 ^ nat e) else (n * 2 ^ nat (- e), d))"

text \<open>The integer nearest to \<open>n / d\<close>, the even one of two equally near.\<close>

definition round_half_even :: "nat \<Rightarrow> nat \<Rightarrow> nat" where
  "round_half_even n d =
     (let q = n div d; r = n mod d
      in if 2 * r < d then q
         else if d < 2 * r then q + 1
         else if even q then q else q + 1)"

text \<open>The \<^verbatim>\<open>float64\<close> nearest to \<open>(-1)^s * n / d\<close>, for \<open>0 < d\<close>.\<close>

definition f64_round :: "bool \<Rightarrow> nat \<Rightarrow> nat \<Rightarrow> float64" where
  "f64_round s n d =
     (if n = 0 then Fin s 0 (- 1074)
      else
        let k = int (floorlog 2 n) - int (floorlog 2 d);
            fl = (case f64_scaled n d k of (a, b) \<Rightarrow> if b \<le> a then k else k - 1);
            e = max (fl - 52) (- 1074);
            m = (case f64_scaled n d e of (a, b) \<Rightarrow> round_half_even a b);
            m' = (if m = 2 ^ 53 then 2 ^ 52 else m);
            e' = (if m = 2 ^ 53 then e + 1 else e)
        in if 971 < e' then Inf s else Fin s m' e')"

text \<open>Go's \<^verbatim>\<open>x * y\<close> on \<^verbatim>\<open>float64\<close>.\<close>

fun f64_mul :: "float64 \<Rightarrow> float64 \<Rightarrow> float64" where
  "f64_mul NaN y = NaN"
| "f64_mul x NaN = NaN"
| "f64_mul (Inf s) (Inf t) = Inf (s \<noteq> t)"
| "f64_mul (Inf s) (Fin t m e) = (if m = 0 then NaN else Inf (s \<noteq> t))"
| "f64_mul (Fin s m e) (Inf t) = (if m = 0 then NaN else Inf (s \<noteq> t))"
| "f64_mul (Fin s m e) (Fin t m' e') =
     (case f64_scaled (m * m') 1 (- (e + e')) of (a, b) \<Rightarrow> f64_round (s \<noteq> t) a b)"

text \<open>Go's \<^verbatim>\<open>x / y\<close> on \<^verbatim>\<open>float64\<close>: dividing by zero gives an infinity or a NaN, it
  does not panic.\<close>

fun f64_div :: "float64 \<Rightarrow> float64 \<Rightarrow> float64" where
  "f64_div NaN y = NaN"
| "f64_div x NaN = NaN"
| "f64_div (Inf s) (Inf t) = NaN"
| "f64_div (Inf s) (Fin t m e) = Inf (s \<noteq> t)"
| "f64_div (Fin s m e) (Inf t) = Fin (s \<noteq> t) 0 (- 1074)"
| "f64_div (Fin s m e) (Fin t m' e') =
     (if m' = 0 then (if m = 0 then NaN else Inf (s \<noteq> t))
      else case f64_scaled m m' (e' - e) of (a, b) \<Rightarrow> f64_round (s \<noteq> t) a b)"

text \<open>The signed mantissa of a finite value.\<close>

definition f64_smant :: "bool \<Rightarrow> nat \<Rightarrow> int" where
  "f64_smant s m = (if s then - int m else int m)"

text \<open>Go's \<^verbatim>\<open>x > y\<close> and \<^verbatim>\<open>x <= y\<close> on \<^verbatim>\<open>float64\<close>: false whenever an operand is a NaN;
  the two zeros are equal.\<close>

fun f64_gt :: "float64 \<Rightarrow> float64 \<Rightarrow> bool" where
  "f64_gt NaN y = False"
| "f64_gt x NaN = False"
| "f64_gt (Inf s) (Inf t) = (\<not> s \<and> t)"
| "f64_gt (Inf s) (Fin t m e) = (\<not> s)"
| "f64_gt (Fin s m e) (Inf t) = t"
| "f64_gt (Fin s m e) (Fin t m' e') =
     (let lo = min e e'
      in f64_smant t m' * 2 ^ nat (e' - lo) < f64_smant s m * 2 ^ nat (e - lo))"

fun f64_le :: "float64 \<Rightarrow> float64 \<Rightarrow> bool" where
  "f64_le NaN y = False"
| "f64_le x NaN = False"
| "f64_le (Inf s) (Inf t) = (s \<or> \<not> t)"
| "f64_le (Inf s) (Fin t m e) = s"
| "f64_le (Fin s m e) (Inf t) = (\<not> t)"
| "f64_le (Fin s m e) (Fin t m' e') =
     (let lo = min e e'
      in f64_smant s m * 2 ^ nat (e - lo) \<le> f64_smant t m' * 2 ^ nat (e' - lo))"

text \<open>A natural number as a \<^verbatim>\<open>float64\<close>: the constants \<^verbatim>\<open>0.0\<close> and \<^verbatim>\<open>100\<close> of the source,
  and the conversion \<^verbatim>\<open>float64(x)\<close> of a \<^verbatim>\<open>uint32\<close>, which is exact.\<close>

definition f64_of_nat :: "nat \<Rightarrow> float64" where
  "f64_of_nat n = f64_round False n 1"

definition f64_of_uint32 :: "32 word \<Rightarrow> float64" where
  "f64_of_uint32 x = f64_of_nat (unat x)"

subsection \<open>Go's \<^verbatim>\<open>fmt\<close> verbs used by the service\<close>

function show_nat :: "nat \<Rightarrow> string" where
  "show_nat n =
     (if n < 10 then [''0123456789'' ! n]
      else show_nat (n div 10) @ [''0123456789'' ! (n mod 10)])"
  by pat_completeness auto
termination
  by (relation "measure (\<lambda>n. n)") auto

declare show_nat.simps [simp del]

text \<open>\<^verbatim>\<open>%.pf\<close> of a \<^verbatim>\<open>float64\<close>: the exact value rounded to \<open>p\<close> decimals, ties to even;
  \<^verbatim>\<open>NaN\<close>, \<^verbatim>\<open>+Inf\<close> and \<^verbatim>\<open>-Inf\<close> for the values that are no numbers.\<close>

fun fmt_f :: "nat \<Rightarrow> float64 \<Rightarrow> string" where
  "fmt_f p NaN = ''NaN''"
| "fmt_f p (Inf s) = (if s then ''-Inf'' else ''+Inf'')"
| "fmt_f p (Fin s m e) =
     (let k = (case f64_scaled (m * 10 ^ p) 1 (- e) of (a, b) \<Rightarrow> round_half_even a b);
          frac = show_nat (k mod 10 ^ p)
      in (if s then ''-'' else '''') @ show_nat (k div 10 ^ p) @
         (if p = 0 then '''' else ''.'' @ replicate (p - length frac) (CHR ''0'') @ frac))"

subsection \<open>Values of the packages the service calls\<close>

text \<open>
  Modelled from the spec: package \<^verbatim>\<open>monitor\<close> (\<^verbatim>\<open>GetHealthStatus\<close>, \<^verbatim>\<open>GetMetrics\<close>, the
  status type with its constant \<^verbatim>\<open>Up\<close>, the metrics structure and the two sentinel
  errors) is not among the sources. The service converts a status with
  \<^verbatim>\<open>string(status)\<close>, so a status is a string; the constant \<^verbatim>\<open>monitor.Up\<close> is a
  parameter \<open>up\<close> of the functions below. Of an error value the service observes its
  text (\<^verbatim>\<open>Error()\<close>, printed by \<^verbatim>\<open>%s\<close> and \<^verbatim>\<open>%v\<close>) and the answers of
  \<^verbatim>\<open>errors.Is\<close> against \<^verbatim>\<open>monitor.ErrNoActuatorSupport\<close> and \<^verbatim>\<open>monitor.ErrNotResponding\<close>.
  The four fields of the metrics are multiplied, divided and compared with
  \<^verbatim>\<open>float64\<close> values without a conversion, so they are \<^verbatim>\<open>float64\<close>.
\<close>

type_synonym Status = string

record go_error =
  errText :: string
  isNoActuatorSupport :: bool
  isNotResponding :: bool

record Metrics =
  CpuUsage :: float64
  CpuCount :: float64
  MemoryUsed :: float64
  MemoryTotal :: float64

text \<open>A \<^verbatim>\<open>gomail.Dialer\<close>, its TLS configuration reduced to \<^verbatim>\<open>InsecureSkipVerify\<close>, and a
  \<^verbatim>\<open>gomail.Message\<close>: the headers in the order they were set, and the body with its
  content type.\<close>

record Dialer =
  Host :: string
  Port :: int
  Username :: string
  Password :: string
  InsecureSkipVerify :: bool

record Message =
  header :: "(string \<times> string list) list"
  body :: "string \<times> string"

subsection \<open>The configuration\<close>

text \<open>\<^verbatim>\<open>MonitorInterval\<close> is a \<^verbatim>\<open>time.Duration\<close>, a signed 64-bit count of nanoseconds
  (read with \<open>sint\<close>); the two thresholds are \<^verbatim>\<open>uint32\<close>.\<close>

record MonitorConfig =
  AppLogoPath :: string
  TestConnectivityUrl :: string
  AlertSoundPath :: string
  UrlsToMonitor :: "string list"
  MonitorInterval :: "64 word"
  CpuUsageWarnThreshold :: "32 word"
  JvmUsageWarnThreshold :: "32 word"
  MailDialer :: Dialer
  EmailReceipients :: "string list"
  IsDesktopAlertsEnabled :: bool
  IsEmailAlertsEnabled :: bool

subsection \<open>Effects and observations\<close>

text \<open>
  The events of a trace, in the order the code performs them. \<open>HandleAlertCall\<close> marks
  the entry of \<^verbatim>\<open>handleAlert\<close> with its four arguments (the alert decision);
  \<open>Exec\<close> is \<^verbatim>\<open>exec.Command(name, args...).CombinedOutput()\<close>; \<open>LogLine\<close> is the text
  given to \<^verbatim>\<open>log.Printf\<close> or \<^verbatim>\<open>log.Println\<close> (without the logger's own prefix);
  \<open>Spawn\<close> is the \<^verbatim>\<open>go\<close> statement; \<open>Sleep\<close> is \<^verbatim>\<open>time.Sleep\<close>, in seconds.
\<close>

datatype event =
    HttpGet string
  | LogLine string
  | Spawn string
  | Sleep nat
  | GetHealthStatus string
  | GetMetrics string
  | HandleAlertCall string string bool bool
  | Exec string "string list"
  | DialAndSend Dialer Message

text \<open>
  What one goroutine observes. Every call below happens at most once on every path
  through the goroutine, so one answer per call is all the code can see:
  the clock as \<^verbatim>\<open>time.Now().Format("15:04")\<close> prints it, the two results of
  \<^verbatim>\<open>monitor.GetHealthStatus\<close> and of \<^verbatim>\<open>monitor.GetMetrics\<close>, the output and error of
  \<^verbatim>\<open>notify-send\<close> and of \<^verbatim>\<open>gst-play-1.0\<close>, \<^verbatim>\<open>viper.GetString("SMTP_USER")\<close>, and the
  error of \<^verbatim>\<open>DialAndSend\<close>.
\<close>

record observations =
  clock :: string
  healthResult :: "Status \<times> go_error option"
  metricsResult :: "Metrics \<times> go_error option"
  notifyResult :: "string \<times> go_error option"
  soundResult :: "string \<times> go_error option"
  smtpUser :: string
  mailResult :: "go_error option"

text \<open>What one cycle observes: the error of \<^verbatim>\<open>http.Get\<close> on the connectivity URL, and
  the observations of the goroutine started for the \<open>i\<close>-th URL.\<close>

record cycle_observations =
  httpGetResult :: "go_error option"
  goroutine :: "nat \<Rightarrow> observations"

text \<open>What one cycle does: the trace of \<^verbatim>\<open>monitorHealthAndMetrics\<close> itself, and the
  traces of the goroutines it started, in the order it started them. The goroutines
  share no state, so each trace stands alone; how they interleave is left open.\<close>

record cycle_trace =
  mainTrace :: "event list"
  spawned :: "event list list"

subsection \<open>Alert dispatch\<close>

definition sendEmail ::
  "observations \<Rightarrow> Dialer \<Rightarrow> string list \<Rightarrow> string \<Rightarrow> string \<Rightarrow> event list \<times> go_error option"
where
  "sendEmail w mailDialer recipients subject msgBody =
     (let message = \<lparr>header = [], body = ([], [])\<rparr>;
          message = message\<lparr>header := header message @ [(''From'', [smtpUser w])]\<rparr>;
          message = message\<lparr>header := header message @ [(''To'', recipients)]\<rparr>;
          message = message\<lparr>header := header message @ [(''Subject'', [subject])]\<rparr>;
          message = message\<lparr>body := (''text/plain'', msgBody)\<rparr>;
          mailDialer = mailDialer\<lparr>InsecureSkipVerify := True\<rparr>
      in ([DialAndSend mailDialer message], mailResult w))"

definition handleAlert ::
  "MonitorConfig \<Rightarrow> observations \<Rightarrow> string \<Rightarrow> string \<Rightarrow> bool \<Rightarrow> bool \<Rightarrow> event list"
where
  "handleAlert config w appBaseUrl msgContent isAlert sendMail =
     HandleAlertCall appBaseUrl msgContent isAlert sendMail #
     (if IsDesktopAlertsEnabled config then
        (if \<not> isAlert then
           Exec ''notify-send''
             [''-u'', ''normal'', ''-i'', AppLogoPath config, appBaseUrl, msgContent] #
           (case notifyResult w of
              (output, Some err) \<Rightarrow>
                [LogLine (''failed to send desktop notification: err: '' @ errText err @
                          '', output: '' @ output)]
            | (output, None) \<Rightarrow> [])
         else
           Exec ''notify-send''
             [''-u'', ''critical'', ''-i'', AppLogoPath config, appBaseUrl, msgContent] #
           (case notifyResult w of
              (output, Some err) \<Rightarrow>
                [LogLine (''failed to send desktop alert: err: '' @ errText err @
                          '', output: '' @ output)]
            | (output, None) \<Rightarrow>
                Exec ''gst-play-1.0'' [AlertSoundPath config] #
                (case soundResult w of
                   (output, Some err) \<Rightarrow>
                     [LogLine (''error playing alert sound: '' @ errText err @ '' '' @ output)]
                 | (output, None) \<Rightarrow> [])))
      else []) @
     (if IsEmailAlertsEnabled config \<and> sendMail then
        (case sendEmail w (MailDialer config) (EmailReceipients config)
                (''Spring Boot App Monitor - '' @ appBaseUrl) msgContent of
           (sent, Some mailErr) \<Rightarrow>
             sent @ [LogLine (''Failed to send email:  '' @ errText mailErr)]
         | (sent, None) \<Rightarrow> sent)
      else [])"

subsection \<open>The goroutine of one monitored URL\<close>

text \<open>
  The function literal that \<^verbatim>\<open>monitorHealthAndMetrics\<close> starts with \<^verbatim>\<open>go\<close> for every
  URL. The context with its one-minute deadline is handed to the two fetches and
  shows only in their results. Each branch ends in a \<^verbatim>\<open>return\<close>, so the rest of the
  body is the \<open>else\<close> of the test. Go's \<^verbatim>\<open>&&\<close> evaluates its right operand only when
  the left one is true: the memory test is an \<open>if\<close> whose \<open>else\<close> is \<open>False\<close>, and the
  division stands in its \<open>then\<close> only.
\<close>

definition monitorTarget ::
  "Status \<Rightarrow> MonitorConfig \<Rightarrow> observations \<Rightarrow> string \<Rightarrow> event list"
where
  "monitorTarget up config w baseUrl =
     GetHealthStatus baseUrl #
     (case healthResult w of
        (status, Some err) \<Rightarrow>
          if isNoActuatorSupport err then
            LogLine (''No actuator support for: '' @ baseUrl) #
            handleAlert config w baseUrl
              (''['' @ clock w @ ''] No actuator support for: '' @ baseUrl @ ''/actuator'')
              True True
          else if isNotResponding err then
            LogLine (''Timeout exceeded. No response from: '' @ baseUrl) #
            handleAlert config w baseUrl
              (''['' @ clock w @ ''] '' @ ''No response from app. Attention required!'')
              True True
          else
            LogLine (''Failed to get health status. Err: '' @ errText err) #
            handleAlert config w baseUrl
              (''['' @ clock w @ ''] Failed to get health status: '' @ errText err)
              True True
      | (status, None) \<Rightarrow>
          if status \<noteq> up then
            LogLine (''Health status: '' @ status @ '' for: '' @ baseUrl) #
            handleAlert config w baseUrl
              (''['' @ clock w @ ''] Health Status: '' @ status @ ''. Attention required!'')
              True True
          else
            GetMetrics baseUrl #
            (case metricsResult w of
               (metrics, Some err) \<Rightarrow>
                 LogLine (''Failed to get metrics for: '' @ baseUrl @ ''. Err: '' @ errText err) #
                 handleAlert config w baseUrl
                   (''['' @ clock w @ ''] Health status: '' @ status @
                    ''. Failed to get metrics: '' @ errText err)
                   False False
             | (metrics, None) \<Rightarrow>
                 let exceededCpuUsageThreshold =
                       f64_gt (f64_mul (CpuUsage metrics) (CpuCount metrics))
                         (f64_of_uint32 (CpuUsageWarnThreshold config));
                     exceededJvmUsageThreshold =
                       (if f64_gt (MemoryTotal metrics) (f64_of_nat 0) then
                          f64_gt
                            (f64_mul (f64_div (MemoryUsed metrics) (MemoryTotal metrics))
                               (f64_of_nat 100))
                            (f64_of_uint32 (JvmUsageWarnThreshold config))
                        else False)
                 in if exceededCpuUsageThreshold \<or> exceededJvmUsageThreshold then
                      LogLine (''Exceeded CPU/JVM threshold: '' @ baseUrl) #
                      handleAlert config w baseUrl
                        (''['' @ clock w @ ''] Attention required! CPU: '' @
                         fmt_f 2 (f64_mul (CpuUsage metrics) (CpuCount metrics)) @
                         ''%, JVM: '' @ fmt_f 1 (MemoryUsed metrics) @ ''/'' @
                         fmt_f 1 (MemoryTotal metrics) @ '' GB'')
                        True True
                    else
                      LogLine (''['' @ baseUrl @ ''] CPU: '' @
                               fmt_f 2 (f64_mul (CpuUsage metrics) (CpuCount metrics)) @
                               ''%, JVM: '' @ fmt_f 1 (MemoryUsed metrics) @ ''/'' @
                               fmt_f 1 (MemoryTotal metrics) @ '' GB'') #
                      handleAlert config w baseUrl
                        (''['' @ clock w @ ''] CPU: '' @
                         fmt_f 2 (f64_mul (CpuUsage metrics) (CpuCount metrics)) @
                         ''%, JVM: '' @ fmt_f 1 (MemoryUsed metrics) @ ''/'' @
                         fmt_f 1 (MemoryTotal metrics) @ '' GB'')
                        False False))"

subsection \<open>One monitoring cycle\<close>

definition hasInternetConnection :: "cycle_observations \<Rightarrow> string \<Rightarrow> event list \<times> bool" where
  "hasInternetConnection cw testConnUrl = ([HttpGet testConnUrl], httpGetResult cw = None)"

text \<open>
  The \<^verbatim>\<open>for i, baseUrl := range\<close> loop, from index \<open>i\<close> on: it starts the goroutine of
  the URL and, after the last URL of more than one, sleeps six seconds. The first
  component is what the loop itself does, the second the traces of the goroutines.
\<close>

fun monitorLoop ::
  "Status \<Rightarrow> MonitorConfig \<Rightarrow> (nat \<Rightarrow> observations) \<Rightarrow> nat \<Rightarrow> string list \<Rightarrow>
   event list \<times> event list list"
where
  "monitorLoop up config ws i [] = ([], [])"
| "monitorLoop up config ws i (baseUrl # rest) =
     (let started = monitorTarget up config (ws i) baseUrl;
          pause = (if 1 < length (UrlsToMonitor config) \<and>
                      int i = int (length (UrlsToMonitor config)) - 1
                   then [Sleep 6] else []);
          (evs, ts) = monitorLoop up config ws (i + 1) rest
      in (Spawn baseUrl # pause @ evs, started # ts))"

definition monitorHealthAndMetrics ::
  "Status \<Rightarrow> MonitorConfig \<Rightarrow> cycle_observations \<Rightarrow> cycle_trace"
where
  "monitorHealthAndMetrics up config cw =
     (case hasInternetConnection cw (TestConnectivityUrl config) of
        (probe, reachable) \<Rightarrow>
          if \<not> reachable then
            \<lparr>mainTrace = probe @
               [LogLine ''No internect connection available for monitoring. Skipping monitoring for now.''],
             spawned = []\<rparr>
          else
            (case monitorLoop up config (goroutine cw) 0 (UrlsToMonitor config) of
               (evs, ts) \<Rightarrow> \<lparr>mainTrace = probe @ evs, spawned = ts\<rparr>))"

subsection \<open>Reading a trace\<close>

text \<open>An alert decision: the four arguments of one call of \<^verbatim>\<open>handleAlert\<close>.\<close>

record AlertDecision =
  decUrl :: string
  decMsg :: string
  decIsAlert :: bool
  decSendMail :: bool

text \<open>The alert decisions of a trace, in order.\<close>

fun decisions :: "event list \<Rightarrow> AlertDecision list" where
  "decisions [] = []"
| "decisions (HandleAlertCall u m a s # evs) =
     \<lparr>decUrl = u, decMsg = m, decIsAlert = a, decSendMail = s\<rparr> # decisions evs"
| "decisions (ev # evs) = decisions evs"

text \<open>The URLs whose metrics a trace fetches.\<close>

fun metricsFetches :: "event list \<Rightarrow> string list" where
  "metricsFetches [] = []"
| "metricsFetches (GetMetrics u # evs) = u # metricsFetches evs"
| "metricsFetches (ev # evs) = metricsFetches evs"

text \<open>The external commands a trace runs (\<^verbatim>\<open>notify-send\<close>, \<^verbatim>\<open>gst-play-1.0\<close>), by name, and
  the mails it sends.\<close>

fun commands :: "event list \<Rightarrow> string list" where
  "commands [] = []"
| "commands (Exec c args # evs) = c # commands evs"
| "commands (ev # evs) = commands evs"

fun mails :: "event list \<Rightarrow> (Dialer \<times> Message) list" where
  "mails [] = []"
| "mails (DialAndSend d m # evs) = (d, m) # mails evs"
| "mails (ev # evs) = mails evs"

subsection \<open>An example configuration and example observations\<close>

text \<open>
  Two monitored applications, the CPU threshold at 80 and the memory threshold at 75,
  mail alerts on and desktop alerts off. The example goroutine sees a healthy
  application with \<^verbatim>\<open>CpuUsage = 0.5\<close>, \<^verbatim>\<open>CpuCount = 2\<close> and one of four units of memory used.
\<close>

definition demo_dialer :: Dialer where
  "demo_dialer =
     \<lparr>Host = ''smtp.example.org'', Port = 587, Username = ''monitor'',
      Password = ''secret'', InsecureSkipVerify = False\<rparr>"

definition demo_config :: MonitorConfig where
  "demo_config =
     \<lparr>AppLogoPath = ''logo.png'',
      TestConnectivityUrl = ''https://example.org'',
      AlertSoundPath = ''alert.wav'',
      UrlsToMonitor = [''http://app1:8080'', ''http://app2:8080''],
      MonitorInterval = 60000000000,
      CpuUsageWarnThreshold = 80,
      JvmUsageWarnThreshold = 75,
      MailDialer = demo_dialer,
      EmailReceipients = [''ops@example.org''],
      IsDesktopAlertsEnabled = False,
      IsEmailAlertsEnabled = True\<rparr>"

definition demo_metrics :: Metrics where
  "demo_metrics =
     \<lparr>CpuUsage = f64_div (f64_of_nat 1) (f64_of_nat 2),
      CpuCount = f64_of_nat 2,
      MemoryUsed = f64_of_nat 1,
      MemoryTotal = f64_of_nat 4\<rparr>"

definition demo_error :: go_error where
  "demo_error =
     \<lparr>errText = ''connection refused'', isNoActuatorSupport = False, isNotResponding = False\<rparr>"

definition demo_obs :: observations where
  "demo_obs =
     \<lparr>clock = ''10:00'',
      healthResult = (''UP'', None),
      metricsResult = (demo_metrics, None),
      notifyResult = ([], None),
      soundResult = ([], None),
      smtpUser = ''monitor@example.org'',
      mailResult = None\<rparr>"

text \<open>A cycle in which the first application is healthy and the second is down.\<close>

definition demo_cycle :: cycle_observations where
  "demo_cycle =
     \<lparr>httpGetResult = None,
      goroutine = (\<lambda>i. if i = 0 then demo_obs else demo_obs\<lparr>healthResult := (''DOWN'', None)\<rparr>)\<rparr>"

section \<open>Properties\<close>

subsection \<open>Evaluating \<^verbatim>\<open>float64\<close> expressions\<close>

lemmas f64_eval = f64_of_nat_def f64_of_uint32_def f64_round_def f64_scaled_def
  round_half_even_def compute_floorlog f64_smant_def Let_def

lemma f64_of_nat_0: "f64_of_nat 0 = Fin False 0 (- 1074)"
  by (simp add: f64_of_nat_def f64_round_def)

lemma f64_of_nat_1: "f64_of_nat 1 = Fin False 4503599627370496 (- 52)"
  by (simp add: f64_eval)

lemma f64_of_nat_2: "f64_of_nat 2 = Fin False 4503599627370496 (- 51)"
  by (simp add: f64_eval)

lemma f64_of_nat_4: "f64_of_nat 4 = Fin False 4503599627370496 (- 50)"
  by (simp add: f64_eval)

lemma f64_of_nat_100: "f64_of_nat 100 = Fin False 7036874417766400 (- 46)"
  by (simp add: f64_eval)

lemma f64_of_uint32_80: "f64_of_uint32 80 = Fin False 5629499534213120 (- 46)"
  by (simp add: f64_eval)

lemma f64_of_uint32_75: "f64_of_uint32 75 = Fin False 5277655813324800 (- 46)"
  by (simp add: f64_eval)

lemma f64_half: "f64_div (f64_of_nat 1) (f64_of_nat 2) = Fin False 4503599627370496 (- 53)"
  by (simp add: f64_eval)

lemma f64_half_times_2:
  "f64_mul (f64_div (f64_of_nat 1) (f64_of_nat 2)) (f64_of_nat 2) = f64_of_nat 1"
  by (simp add: f64_eval)

lemma f64_1_not_gt_80: "\<not> f64_gt (f64_of_nat 1) (f64_of_uint32 80)"
  by (simp add: f64_eval)

lemma f64_1_neq_100: "f64_of_nat 1 \<noteq> f64_of_nat 100"
  by (simp add: f64_of_nat_1 f64_of_nat_100 del: One_nat_def)

lemma f64_4_gt_0: "f64_gt (f64_of_nat 4) (f64_of_nat 0)"
  by (simp add: f64_eval)

lemma f64_quarter_percent:
  "f64_mul (f64_div (f64_of_nat 1) (f64_of_nat 4)) (f64_of_nat 100) =
     Fin False 7036874417766400 (- 48)"
  by (simp add: f64_eval)

lemma f64_of_nat_50: "f64_of_nat 50 = Fin False 7036874417766400 (- 47)"
  by (simp add: f64_eval)

lemma f64_50_times_2: "f64_mul (f64_of_nat 50) (f64_of_nat 2) = f64_of_nat 100"
  by (simp add: f64_eval)

lemma f64_100_gt_80: "f64_gt (f64_of_nat 100) (f64_of_uint32 80)"
  by (simp add: f64_eval)

lemma f64_25_not_gt_75:
  "\<not> f64_gt (f64_mul (f64_div (f64_of_nat 1) (f64_of_nat 4)) (f64_of_nat 100))
        (f64_of_uint32 75)"
  by (simp add: f64_eval)

lemma fmt_1_00: "fmt_f 2 (f64_of_nat 1) = ''1.00''"
  by (simp add: f64_eval show_nat.simps)

lemma fmt_1_0: "fmt_f 1 (f64_of_nat 1) = ''1.0''"
  by (simp add: f64_eval show_nat.simps)

lemma fmt_4_0: "fmt_f 1 (f64_of_nat 4) = ''4.0''"
  by (simp add: f64_eval show_nat.simps)

lemma f64_le_not_gt: "f64_le x y \<Longrightarrow> \<not> f64_gt x y"
  by (cases x; cases y) (auto simp: Let_def)

subsection \<open>Reading the trace of \<^verbatim>\<open>handleAlert\<close>\<close>

lemma decisions_append: "decisions (xs @ ys) = decisions xs @ decisions ys"
  by (induction xs rule: decisions.induct) simp_all

lemma metricsFetches_append:
  "metricsFetches (xs @ ys) = metricsFetches xs @ metricsFetches ys"
  by (induction xs rule: metricsFetches.induct) simp_all

lemma commands_append: "commands (xs @ ys) = commands xs @ commands ys"
  by (induction xs rule: commands.induct) simp_all

lemma mails_append: "mails (xs @ ys) = mails xs @ mails ys"
  by (induction xs rule: mails.induct) simp_all

lemma decisions_handleAlert:
  "decisions (handleAlert config w u m a s) =
     [\<lparr>decUrl = u, decMsg = m, decIsAlert = a, decSendMail = s\<rparr>]"
  by (simp add: handleAlert_def sendEmail_def decisions_append
      split: prod.splits option.splits)

lemma metricsFetches_handleAlert: "metricsFetches (handleAlert config w u m a s) = []"
  by (simp add: handleAlert_def sendEmail_def metricsFetches_append
      split: prod.splits option.splits)

text \<open>The example goroutine: one is below both thresholds, since \<open>0.5 * 2 = 1\<close> and
  \<open>1 / 4 * 100 = 25\<close>.\<close>

lemma demo_thresholds:
  "\<not> f64_gt (f64_mul (CpuUsage demo_metrics) (CpuCount demo_metrics))
        (f64_of_uint32 (CpuUsageWarnThreshold demo_config))"
  "\<not> f64_gt (f64_mul (f64_div (MemoryUsed demo_metrics) (MemoryTotal demo_metrics))
           (f64_of_nat 100)) (f64_of_uint32 (JvmUsageWarnThreshold demo_config))"
  by (simp_all add: demo_metrics_def demo_config_def f64_half_times_2 f64_1_not_gt_80
      f64_25_not_gt_75 del: One_nat_def)

lemma demo_decisions:
  "decisions (monitorTarget ''UP'' demo_config demo_obs ''http://app1:8080'') =
     [\<lparr>decUrl = ''http://app1:8080'', decMsg = ''[10:00] CPU: 1.00%, JVM: 1.0/4.0 GB'',
       decIsAlert = False, decSendMail = False\<rparr>]"
  using demo_thresholds
  by (simp add: monitorTarget_def decisions_handleAlert demo_obs_def del: One_nat_def)
    (simp add: demo_metrics_def f64_half_times_2 fmt_1_00 fmt_1_0 fmt_4_0 del: One_nat_def)

subsection \<open>The goroutine of one URL\<close>

text \<open>Whatever the goroutine observes, it calls \<^verbatim>\<open>handleAlert\<close> once, for its own URL, and
  with two equal flags.\<close>

lemma decisions_monitorTarget_url:
  "map decUrl (decisions (monitorTarget up config w baseUrl)) = [baseUrl]"
  by (simp add: monitorTarget_def decisions_handleAlert Let_def
      split: prod.splits option.splits)

lemma decisions_monitorTarget_flags:
  "map decIsAlert (decisions (monitorTarget up config w baseUrl)) =
   map decSendMail (decisions (monitorTarget up config w baseUrl))"
  by (simp add: monitorTarget_def decisions_handleAlert Let_def
      split: prod.splits option.splits)

text \<open>
  Claim C1. When the health fetch of a target returns an error (no actuator support, no
  response, or any other error), the goroutine of the target never fetches the metrics,
  and the one decision it produces is an alert that is mailed: \<open>isAlert = true\<close> and
  \<open>sendMail = true\<close>.
\<close>

theorem health_error_stops_before_metrics:
  assumes "healthResult w = (status, Some err)"
  shows "metricsFetches (monitorTarget up config w baseUrl) = [] \<and>
         map (\<lambda>d. (decUrl d, decIsAlert d, decSendMail d))
           (decisions (monitorTarget up config w baseUrl)) = [(baseUrl, True, True)]"
  using assms
  by (simp add: monitorTarget_def decisions_handleAlert metricsFetches_handleAlert)

theorem health_error_stops_before_metrics_witness:
  "healthResult (demo_obs\<lparr>healthResult := ([], Some demo_error)\<rparr>) = ([], Some demo_error) \<and>
   metricsFetches
     (monitorTarget ''UP'' demo_config (demo_obs\<lparr>healthResult := ([], Some demo_error)\<rparr>)
        ''http://app1:8080'') = [] \<and>
   map (\<lambda>d. (decUrl d, decIsAlert d, decSendMail d))
     (decisions
        (monitorTarget ''UP'' demo_config (demo_obs\<lparr>healthResult := ([], Some demo_error)\<rparr>)
           ''http://app1:8080'')) = [(''http://app1:8080'', True, True)]"
proof -
  have h: "healthResult (demo_obs\<lparr>healthResult := ([], Some demo_error)\<rparr>) =
             ([], Some demo_error)"
    by simp
  show ?thesis
    using h health_error_stops_before_metrics [OF h, of "''UP''" demo_config "''http://app1:8080''"]
    by simp
qed

text \<open>
  Claim C2. When the health fetch of a target succeeds with a status other than
  \<^verbatim>\<open>Up\<close>, the one decision is an alert that is mailed, its message contains the status
  as it was reported, and the metrics are not fetched.
\<close>

theorem health_not_up_is_critical:
  assumes "healthResult w = (status, None)" and "status \<noteq> up"
  shows "metricsFetches (monitorTarget up config w baseUrl) = [] \<and>
         decisions (monitorTarget up config w baseUrl) =
           [\<lparr>decUrl = baseUrl,
             decMsg = ''['' @ clock w @ ''] Health Status: '' @ status @ ''. Attention required!'',
             decIsAlert = True, decSendMail = True\<rparr>] \<and>
         sublist status
           (''['' @ clock w @ ''] Health Status: '' @ status @ ''. Attention required!'')"
proof -
  have "sublist status
          ((''['' @ clock w @ ''] Health Status: '') @ status @ ''. Attention required!'')"
    by (rule sublist_appendI)
  then show ?thesis
    using assms
    by (simp add: monitorTarget_def decisions_handleAlert metricsFetches_handleAlert)
qed

theorem health_not_up_is_critical_witness:
  "healthResult (demo_obs\<lparr>healthResult := (''DOWN'', None)\<rparr>) = (''DOWN'', None) \<and>
   ''DOWN'' \<noteq> ''UP'' \<and>
   metricsFetches
     (monitorTarget ''UP'' demo_config (demo_obs\<lparr>healthResult := (''DOWN'', None)\<rparr>)
        ''http://app2:8080'') = [] \<and>
   decisions
     (monitorTarget ''UP'' demo_config (demo_obs\<lparr>healthResult := (''DOWN'', None)\<rparr>)
        ''http://app2:8080'') =
     [\<lparr>decUrl = ''http://app2:8080'',
       decMsg = ''[10:00] Health Status: DOWN. Attention required!'',
       decIsAlert = True, decSendMail = True\<rparr>] \<and>
   sublist ''DOWN'' ''[10:00] Health Status: DOWN. Attention required!''"
proof -
  have h: "healthResult (demo_obs\<lparr>healthResult := (''DOWN'', None)\<rparr>) = (''DOWN'', None)"
    by simp
  have n: "''DOWN'' \<noteq> ''UP''"
    by simp
  show ?thesis
    using h n health_not_up_is_critical [OF h n, of demo_config "''http://app2:8080''"]
    by (simp add: demo_obs_def)
qed

text \<open>
  Claim C3. When a target is \<^verbatim>\<open>Up\<close> and its metrics fetch returns an error, the one
  decision is informational and not mailed (\<open>isAlert = false\<close>, \<open>sendMail = false\<close>), and
  its message contains both the health status and the text of the metrics error.
\<close>

theorem metrics_error_is_informational:
  assumes "healthResult w = (up, None)" and "metricsResult w = (metrics, Some err)"
  shows "decisions (monitorTarget up config w baseUrl) =
           [\<lparr>decUrl = baseUrl,
             decMsg = ''['' @ clock w @ ''] Health status: '' @ up @
                      ''. Failed to get metrics: '' @ errText err,
             decIsAlert = False, decSendMail = False\<rparr>] \<and>
         sublist up
           (''['' @ clock w @ ''] Health status: '' @ up @
            ''. Failed to get metrics: '' @ errText err) \<and>
         sublist (errText err)
           (''['' @ clock w @ ''] Health status: '' @ up @
            ''. Failed to get metrics: '' @ errText err)"
proof -
  have s1: "sublist up
      ((''['' @ clock w @ ''] Health status: '') @ up @
       (''. Failed to get metrics: '' @ errText err))"
    by (rule sublist_appendI)
  have s2: "sublist (errText err)
      ((''['' @ clock w @ ''] Health status: '' @ up @ ''. Failed to get metrics: '') @
       errText err @ [])"
    by (rule sublist_appendI)
  show ?thesis
    using assms s1 s2
    by (simp add: monitorTarget_def decisions_handleAlert)
qed

theorem metrics_error_is_informational_witness:
  "healthResult (demo_obs\<lparr>metricsResult := (demo_metrics, Some demo_error)\<rparr>) = (''UP'', None) \<and>
   metricsResult (demo_obs\<lparr>metricsResult := (demo_metrics, Some demo_error)\<rparr>) =
     (demo_metrics, Some demo_error) \<and>
   decisions
     (monitorTarget ''UP'' demo_config
        (demo_obs\<lparr>metricsResult := (demo_metrics, Some demo_error)\<rparr>) ''http://app1:8080'') =
     [\<lparr>decUrl = ''http://app1:8080'',
       decMsg = ''[10:00] Health status: UP. Failed to get metrics: connection refused'',
       decIsAlert = False, decSendMail = False\<rparr>]"
proof -
  have h: "healthResult (demo_obs\<lparr>metricsResult := (demo_metrics, Some demo_error)\<rparr>) =
             (''UP'', None)"
    by (simp add: demo_obs_def)
  have m: "metricsResult (demo_obs\<lparr>metricsResult := (demo_metrics, Some demo_error)\<rparr>) =
             (demo_metrics, Some demo_error)"
    by simp
  show ?thesis
    using h m metrics_error_is_informational [OF h m, of demo_config "''http://app1:8080''"]
    by (simp add: demo_obs_def demo_error_def)
qed

text \<open>
  Claim C4. When a target is \<^verbatim>\<open>Up\<close>, its metrics were fetched and \<^verbatim>\<open>MemoryTotal <= 0\<close>,
  the memory test is skipped: the goroutine still produces its one decision, and the
  decision is an alert exactly when \<^verbatim>\<open>CpuUsage * CpuCount\<close> exceeds the CPU threshold,
  whatever \<^verbatim>\<open>MemoryUsed\<close> and the memory threshold are.
\<close>

theorem zero_memory_total_skips_memory_check:
  assumes "healthResult w = (up, None)" and "metricsResult w = (metrics, None)"
    and "f64_le (MemoryTotal metrics) (f64_of_nat 0)"
  shows "map (\<lambda>d. (decUrl d, decIsAlert d, decSendMail d))
           (decisions (monitorTarget up config w baseUrl)) =
         [(baseUrl,
           f64_gt (f64_mul (CpuUsage metrics) (CpuCount metrics))
             (f64_of_uint32 (CpuUsageWarnThreshold config)),
           f64_gt (f64_mul (CpuUsage metrics) (CpuCount metrics))
             (f64_of_uint32 (CpuUsageWarnThreshold config)))]"
proof -
  have "\<not> f64_gt (MemoryTotal metrics) (f64_of_nat 0)"
    using assms(3) by (rule f64_le_not_gt)
  then show ?thesis
    using assms(1,2)
    by (simp add: monitorTarget_def decisions_handleAlert Let_def)
qed

theorem zero_memory_total_skips_memory_check_witness:
  "healthResult
     (demo_obs\<lparr>metricsResult := (demo_metrics\<lparr>MemoryTotal := f64_of_nat 0\<rparr>, None)\<rparr>) =
     (''UP'', None) \<and>
   metricsResult
     (demo_obs\<lparr>metricsResult := (demo_metrics\<lparr>MemoryTotal := f64_of_nat 0\<rparr>, None)\<rparr>) =
     (demo_metrics\<lparr>MemoryTotal := f64_of_nat 0\<rparr>, None) \<and>
   f64_le (MemoryTotal (demo_metrics\<lparr>MemoryTotal := f64_of_nat 0\<rparr>)) (f64_of_nat 0) \<and>
   map (\<lambda>d. (decUrl d, decIsAlert d, decSendMail d))
     (decisions
        (monitorTarget ''UP'' demo_config
           (demo_obs\<lparr>metricsResult := (demo_metrics\<lparr>MemoryTotal := f64_of_nat 0\<rparr>, None)\<rparr>)
           ''http://app1:8080'')) =
     [(''http://app1:8080'', False, False)]"
proof -
  have h: "healthResult
      (demo_obs\<lparr>metricsResult := (demo_metrics\<lparr>MemoryTotal := f64_of_nat 0\<rparr>, None)\<rparr>) =
      (''UP'', None)"
    by (simp add: demo_obs_def)
  have m: "metricsResult
      (demo_obs\<lparr>metricsResult := (demo_metrics\<lparr>MemoryTotal := f64_of_nat 0\<rparr>, None)\<rparr>) =
      (demo_metrics\<lparr>MemoryTotal := f64_of_nat 0\<rparr>, None)"
    by simp
  have z: "f64_le (MemoryTotal (demo_metrics\<lparr>MemoryTotal := f64_of_nat 0\<rparr>)) (f64_of_nat 0)"
    by (simp add: f64_of_nat_0 f64_smant_def)
  have c: "\<not> f64_gt
      (f64_mul (CpuUsage (demo_metrics\<lparr>MemoryTotal := f64_of_nat 0\<rparr>))
         (CpuCount (demo_metrics\<lparr>MemoryTotal := f64_of_nat 0\<rparr>)))
      (f64_of_uint32 (CpuUsageWarnThreshold demo_config))"
    using demo_thresholds(1) by simp
  show ?thesis
    using h m z c
      zero_memory_total_skips_memory_check [OF h m z, of demo_config "''http://app1:8080''"]
    by simp
qed

text \<open>
  Claim C5, as amended. For a target that is \<^verbatim>\<open>Up\<close> and whose metrics were fetched, the
  decision is an alert that is mailed (\<open>isAlert = true\<close>, \<open>sendMail = true\<close>) whenever
  \<^verbatim>\<open>CpuUsage * CpuCount\<close> exceeds the CPU threshold, whatever the memory values and the
  memory threshold are. With the threshold at 80 this is so for \<^verbatim>\<open>CpuUsage = 50\<close> and
  \<^verbatim>\<open>CpuCount = 2\<close>, where the product is \<open>100\<close>. For \<^verbatim>\<open>CpuUsage = 0.5\<close> and \<^verbatim>\<open>CpuCount = 2\<close>
  the product is \<open>1\<close>, not \<open>100\<close>, and does not exceed 80.
\<close>

theorem cpu_over_threshold_is_critical:
  assumes "healthResult w = (up, None)" and "metricsResult w = (metrics, None)"
  shows "(f64_gt (f64_mul (CpuUsage metrics) (CpuCount metrics))
            (f64_of_uint32 (CpuUsageWarnThreshold config)) \<longrightarrow>
          map (\<lambda>d. (decUrl d, decIsAlert d, decSendMail d))
            (decisions (monitorTarget up config w baseUrl)) = [(baseUrl, True, True)]) \<and>
         (CpuUsageWarnThreshold config = 80 \<and> CpuUsage metrics = f64_of_nat 50 \<and>
          CpuCount metrics = f64_of_nat 2 \<longrightarrow>
          f64_mul (CpuUsage metrics) (CpuCount metrics) = f64_of_nat 100 \<and>
          f64_gt (f64_mul (CpuUsage metrics) (CpuCount metrics))
            (f64_of_uint32 (CpuUsageWarnThreshold config)) \<and>
          map (\<lambda>d. (decUrl d, decIsAlert d, decSendMail d))
            (decisions (monitorTarget up config w baseUrl)) = [(baseUrl, True, True)]) \<and>
         (CpuUsageWarnThreshold config = 80 \<and>
          CpuUsage metrics = f64_div (f64_of_nat 1) (f64_of_nat 2) \<and>
          CpuCount metrics = f64_of_nat 2 \<longrightarrow>
          f64_mul (CpuUsage metrics) (CpuCount metrics) = f64_of_nat 1 \<and>
          \<not> f64_gt (f64_mul (CpuUsage metrics) (CpuCount metrics))
              (f64_of_uint32 (CpuUsageWarnThreshold config)))"
proof -
  have over: "map (\<lambda>d. (decUrl d, decIsAlert d, decSendMail d))
                (decisions (monitorTarget up config w baseUrl)) = [(baseUrl, True, True)]"
    if "f64_gt (f64_mul (CpuUsage metrics) (CpuCount metrics))
          (f64_of_uint32 (CpuUsageWarnThreshold config))"
    using that assms
    by (simp add: monitorTarget_def decisions_handleAlert Let_def del: One_nat_def)
  have hundred: "f64_gt (f64_mul (CpuUsage metrics) (CpuCount metrics))
                   (f64_of_uint32 (CpuUsageWarnThreshold config))"
    if "CpuUsageWarnThreshold config = 80" and "CpuUsage metrics = f64_of_nat 50"
      and "CpuCount metrics = f64_of_nat 2"
    using that f64_100_gt_80 by (simp add: f64_50_times_2 del: One_nat_def)
  have one: "\<not> f64_gt (f64_mul (CpuUsage metrics) (CpuCount metrics))
                 (f64_of_uint32 (CpuUsageWarnThreshold config))"
    if "CpuUsageWarnThreshold config = 80"
      and "CpuUsage metrics = f64_div (f64_of_nat 1) (f64_of_nat 2)"
      and "CpuCount metrics = f64_of_nat 2"
    using that f64_1_not_gt_80 by (simp add: f64_half_times_2 del: One_nat_def)
  show ?thesis
    using over hundred one
    by (auto simp add: f64_50_times_2 f64_half_times_2 simp del: One_nat_def)
qed

text \<open>The theorem at the two pairs of values: \<open>50 * 2 = 100\<close> exceeds 80 and gives an alert
  although one of four units of memory is below the memory threshold; \<open>0.5 * 2 = 1\<close>
  does not exceed 80.\<close>

theorem cpu_over_threshold_is_critical_witness:
  "healthResult
     (demo_obs\<lparr>metricsResult := (demo_metrics\<lparr>CpuUsage := f64_of_nat 50\<rparr>, None)\<rparr>) =
     (''UP'', None) \<and>
   metricsResult
     (demo_obs\<lparr>metricsResult := (demo_metrics\<lparr>CpuUsage := f64_of_nat 50\<rparr>, None)\<rparr>) =
     (demo_metrics\<lparr>CpuUsage := f64_of_nat 50\<rparr>, None) \<and>
   CpuUsageWarnThreshold demo_config = 80 \<and>
   CpuUsage (demo_metrics\<lparr>CpuUsage := f64_of_nat 50\<rparr>) = f64_of_nat 50 \<and>
   CpuCount (demo_metrics\<lparr>CpuUsage := f64_of_nat 50\<rparr>) = f64_of_nat 2 \<and>
   f64_gt
     (f64_mul (CpuUsage (demo_metrics\<lparr>CpuUsage := f64_of_nat 50\<rparr>))
        (CpuCount (demo_metrics\<lparr>CpuUsage := f64_of_nat 50\<rparr>)))
     (f64_of_uint32 (CpuUsageWarnThreshold demo_config)) \<and>
   map (\<lambda>d. (decUrl d, decIsAlert d, decSendMail d))
     (decisions
        (monitorTarget ''UP'' demo_config
           (demo_obs\<lparr>metricsResult := (demo_metrics\<lparr>CpuUsage := f64_of_nat 50\<rparr>, None)\<rparr>)
           ''http://app1:8080'')) =
     [(''http://app1:8080'', True, True)] \<and>
   healthResult demo_obs = (''UP'', None) \<and>
   metricsResult demo_obs = (demo_metrics, None) \<and>
   CpuUsage demo_metrics = f64_div (f64_of_nat 1) (f64_of_nat 2) \<and>
   CpuCount demo_metrics = f64_of_nat 2 \<and>
   f64_mul (CpuUsage demo_metrics) (CpuCount demo_metrics) = f64_of_nat 1 \<and>
   \<not> f64_gt (f64_mul (CpuUsage demo_metrics) (CpuCount demo_metrics))
       (f64_of_uint32 (CpuUsageWarnThreshold demo_config))"
proof -
  have h: "healthResult
      (demo_obs\<lparr>metricsResult := (demo_metrics\<lparr>CpuUsage := f64_of_nat 50\<rparr>, None)\<rparr>) =
      (''UP'', None)"
    by (simp add: demo_obs_def)
  have m: "metricsResult
      (demo_obs\<lparr>metricsResult := (demo_metrics\<lparr>CpuUsage := f64_of_nat 50\<rparr>, None)\<rparr>) =
      (demo_metrics\<lparr>CpuUsage := f64_of_nat 50\<rparr>, None)"
    by simp
  have t: "CpuUsageWarnThreshold demo_config = 80"
    by (simp add: demo_config_def)
  have u: "CpuUsage (demo_metrics\<lparr>CpuUsage := f64_of_nat 50\<rparr>) = f64_of_nat 50"
    by simp
  have n: "CpuCount (demo_metrics\<lparr>CpuUsage := f64_of_nat 50\<rparr>) = f64_of_nat 2"
    by (simp add: demo_metrics_def)
  have h': "healthResult demo_obs = (''UP'', None)"
    by (simp add: demo_obs_def)
  have m': "metricsResult demo_obs = (demo_metrics, None)"
    by (simp add: demo_obs_def)
  have u': "CpuUsage demo_metrics = f64_div (f64_of_nat 1) (f64_of_nat 2)"
    by (simp add: demo_metrics_def)
  have n': "CpuCount demo_metrics = f64_of_nat 2"
    by (simp add: demo_metrics_def)
  have a: "f64_gt
      (f64_mul (CpuUsage (demo_metrics\<lparr>CpuUsage := f64_of_nat 50\<rparr>))
         (CpuCount (demo_metrics\<lparr>CpuUsage := f64_of_nat 50\<rparr>)))
      (f64_of_uint32 (CpuUsageWarnThreshold demo_config)) \<and>
    map (\<lambda>d. (decUrl d, decIsAlert d, decSendMail d))
      (decisions
         (monitorTarget ''UP'' demo_config
            (demo_obs\<lparr>metricsResult := (demo_metrics\<lparr>CpuUsage := f64_of_nat 50\<rparr>, None)\<rparr>)
            ''http://app1:8080'')) =
      [(''http://app1:8080'', True, True)]"
    using t u n
      cpu_over_threshold_is_critical [OF h m, of demo_config "''http://app1:8080''"]
    by blast
  have b: "f64_mul (CpuUsage demo_metrics) (CpuCount demo_metrics) = f64_of_nat 1 \<and>
    \<not> f64_gt (f64_mul (CpuUsage demo_metrics) (CpuCount demo_metrics))
        (f64_of_uint32 (CpuUsageWarnThreshold demo_config))"
    using t u' n'
      cpu_over_threshold_is_critical [OF h' m', of demo_config "''http://app1:8080''"]
    by blast
  show ?thesis
    using h m t u n h' m' u' n' a b by blast
qed

text \<open>
  The claim as the specification states it (for \<open>0.5\<close> and \<open>2\<close> the product is 100, so the
  decision is an alert whatever the memory values are) fails: with one of four units of memory used
  and the memory threshold at 75, the product is \<open>1\<close>, not \<open>100\<close>, and the decision is
  informational and not mailed.
\<close>

theorem cpu_half_times_two_not_critical:
  "f64_mul (f64_div (f64_of_nat 1) (f64_of_nat 2)) (f64_of_nat 2) = f64_of_nat 1 \<and>
   f64_mul (f64_div (f64_of_nat 1) (f64_of_nat 2)) (f64_of_nat 2) \<noteq> f64_of_nat 100 \<and>
   decisions
     (monitorTarget ''UP''
        (demo_config\<lparr>CpuUsageWarnThreshold := 80, JvmUsageWarnThreshold := 75\<rparr>)
        (demo_obs\<lparr>healthResult := (''UP'', None),
           metricsResult :=
             (\<lparr>CpuUsage = f64_div (f64_of_nat 1) (f64_of_nat 2),
               CpuCount = f64_of_nat 2,
               MemoryUsed = f64_of_nat 1,
               MemoryTotal = f64_of_nat 4\<rparr>, None)\<rparr>)
        ''http://app1:8080'') =
     [\<lparr>decUrl = ''http://app1:8080'', decMsg = ''[10:00] CPU: 1.00%, JVM: 1.0/4.0 GB'',
       decIsAlert = False, decSendMail = False\<rparr>]"
proof -
  have "f64_mul (f64_div (f64_of_nat 1) (f64_of_nat 2)) (f64_of_nat 2) \<noteq> f64_of_nat 100"
    using f64_1_neq_100 by (simp add: f64_half_times_2 del: One_nat_def)
  moreover have "\<not> f64_gt (f64_mul (f64_div (f64_of_nat 1) (f64_of_nat 2)) (f64_of_nat 2))
                     (f64_of_uint32 80)"
    using f64_1_not_gt_80 by (simp add: f64_half_times_2 del: One_nat_def)
  ultimately show ?thesis
    using f64_25_not_gt_75
    by (simp add: monitorTarget_def decisions_handleAlert Let_def demo_obs_def
        f64_half_times_2 fmt_1_00 fmt_1_0 fmt_4_0 del: One_nat_def)
qed

subsection \<open>One cycle\<close>

text \<open>The loop starts one goroutine for every URL, in order: the goroutine of the URL at
  index \<open>j\<close> runs \<open>monitorTarget\<close> on that URL with its own observations.\<close>

lemma monitorLoop_spawned:
  "snd (monitorLoop up config ws i urls) =
     map (\<lambda>(j, u). monitorTarget up config (ws j) u) (zip [i ..< i + length urls] urls)"
proof (induction urls arbitrary: i)
  case Nil
  show ?case by simp
next
  case (Cons u urls)
  obtain evs ts where r: "monitorLoop up config ws (Suc i) urls = (evs, ts)"
    by (cases "monitorLoop up config ws (Suc i) urls")
  have ts: "ts = map (\<lambda>(j, u). monitorTarget up config (ws j) u)
                   (zip [Suc i ..< Suc i + length urls] urls)"
    using Cons.IH [of "Suc i"] r by simp
  have "i < i + length (u # urls)"
    by simp
  then have "[i ..< i + length (u # urls)] = i # [Suc i ..< i + length (u # urls)]"
    by (rule upt_conv_Cons)
  then have eq: "[i ..< i + length (u # urls)] = i # [Suc i ..< Suc i + length urls]"
    by simp
  show ?case
    unfolding eq by (simp add: r ts Let_def)
qed

lemma monitorLoop_length: "length (snd (monitorLoop up config ws i urls)) = length urls"
  by (simp add: monitorLoop_spawned)

lemma monitorLoop_decision_urls:
  "map (\<lambda>t. map decUrl (decisions t)) (snd (monitorLoop up config ws i urls)) =
     map (\<lambda>u. [u]) urls"
proof (induction urls arbitrary: i)
  case Nil
  show ?case by simp
next
  case (Cons u urls)
  obtain evs ts where r: "monitorLoop up config ws (Suc i) urls = (evs, ts)"
    by (cases "monitorLoop up config ws (Suc i) urls")
  have "map (\<lambda>t. map decUrl (decisions t)) ts = map (\<lambda>u. [u]) urls"
    using Cons.IH [of "Suc i"] r by simp
  then show ?case
    by (simp add: r Let_def decisions_monitorTarget_url)
qed

lemma monitorLoop_decision_flags:
  "map decIsAlert (concat (map decisions (snd (monitorLoop up config ws i urls)))) =
   map decSendMail (concat (map decisions (snd (monitorLoop up config ws i urls))))"
proof (induction urls arbitrary: i)
  case Nil
  show ?case by simp
next
  case (Cons u urls)
  obtain evs ts where r: "monitorLoop up config ws (Suc i) urls = (evs, ts)"
    by (cases "monitorLoop up config ws (Suc i) urls")
  have "map decIsAlert (concat (map decisions ts)) = map decSendMail (concat (map decisions ts))"
    using Cons.IH [of "Suc i"] r by simp
  then show ?case
    using decisions_monitorTarget_flags [of up config "ws i" u]
    by (simp add: r Let_def)
qed

lemma spawned_connected:
  "httpGetResult cw = None \<Longrightarrow>
   spawned (monitorHealthAndMetrics up config cw) =
     snd (monitorLoop up config (goroutine cw) 0 (UrlsToMonitor config))"
  by (simp add: monitorHealthAndMetrics_def hasInternetConnection_def split: prod.splits)

lemma spawned_not_connected:
  "httpGetResult cw = Some err \<Longrightarrow> spawned (monitorHealthAndMetrics up config cw) = []"
  by (simp add: monitorHealthAndMetrics_def hasInternetConnection_def)

text \<open>The second example goroutine sees the status \<^verbatim>\<open>DOWN\<close>.\<close>

lemma demo_down_decisions:
  "decisions
     (monitorTarget ''UP'' demo_config (demo_obs\<lparr>healthResult := (''DOWN'', None)\<rparr>)
        ''http://app2:8080'') =
     [\<lparr>decUrl = ''http://app2:8080'',
       decMsg = ''[10:00] Health Status: DOWN. Attention required!'',
       decIsAlert = True, decSendMail = True\<rparr>]"
  by (simp add: monitorTarget_def decisions_handleAlert demo_obs_def)

lemma demo_cycle_spawned:
  "spawned (monitorHealthAndMetrics ''UP'' demo_config demo_cycle) =
     [monitorTarget ''UP'' demo_config demo_obs ''http://app1:8080'',
      monitorTarget ''UP'' demo_config (demo_obs\<lparr>healthResult := (''DOWN'', None)\<rparr>)
        ''http://app2:8080'']"
proof -
  have u: "UrlsToMonitor demo_config = [''http://app1:8080'', ''http://app2:8080'']"
    by (simp add: demo_config_def)
  have "[0 ..< 0 + length [''http://app1:8080'', ''http://app2:8080'']] = [0, Suc 0]"
    by (simp add: upt_conv_Cons)
  then show ?thesis
    by (simp add: spawned_connected monitorLoop_spawned u demo_cycle_def)
qed

text \<open>
  Claim C6. In a cycle that passes the connectivity test, every monitored URL gets
  exactly one alert decision, for that URL: the cycle starts one goroutine per URL, in
  order, and each goroutine calls \<^verbatim>\<open>handleAlert\<close> exactly once, also when health and
  metrics are fine. (Each goroutine is taken to run to its end.)
\<close>

theorem one_decision_per_target:
  assumes "httpGetResult cw = None"
  shows "map (\<lambda>t. map decUrl (decisions t)) (spawned (monitorHealthAndMetrics up config cw)) =
           map (\<lambda>u. [u]) (UrlsToMonitor config)"
  using assms by (simp add: spawned_connected monitorLoop_decision_urls)

theorem one_decision_per_target_witness:
  "httpGetResult demo_cycle = None \<and>
   map (\<lambda>t. map decUrl (decisions t))
     (spawned (monitorHealthAndMetrics ''UP'' demo_config demo_cycle)) =
     [[''http://app1:8080''], [''http://app2:8080'']] \<and>
   map (\<lambda>t. map decIsAlert (decisions t))
     (spawned (monitorHealthAndMetrics ''UP'' demo_config demo_cycle)) =
     [[False], [True]]"
proof -
  have h: "httpGetResult demo_cycle = None"
    by (simp add: demo_cycle_def)
  have "map (\<lambda>t. map decIsAlert (decisions t))
          (spawned (monitorHealthAndMetrics ''UP'' demo_config demo_cycle)) = [[False], [True]]"
    by (simp add: demo_cycle_spawned demo_decisions demo_down_decisions)
  then show ?thesis
    using h one_decision_per_target [OF h, of "''UP''" demo_config]
    by (simp add: demo_config_def)
qed

text \<open>
  Claim C7. When the connectivity test fails, the cycle is skipped: no goroutine is
  started, so no target is evaluated, and the cycle itself only makes the test request
  and writes one log line; it calls no \<^verbatim>\<open>handleAlert\<close>, runs no command and sends no mail.
\<close>

theorem no_connectivity_skips_cycle:
  assumes "httpGetResult cw = Some err"
  shows "spawned (monitorHealthAndMetrics up config cw) = [] \<and>
         mainTrace (monitorHealthAndMetrics up config cw) =
           [HttpGet (TestConnectivityUrl config),
            LogLine ''No internect connection available for monitoring. Skipping monitoring for now.''] \<and>
         decisions (mainTrace (monitorHealthAndMetrics up config cw)) = [] \<and>
         commands (mainTrace (monitorHealthAndMetrics up config cw)) = [] \<and>
         mails (mainTrace (monitorHealthAndMetrics up config cw)) = []"
  using assms by (simp add: monitorHealthAndMetrics_def hasInternetConnection_def)

theorem no_connectivity_skips_cycle_witness:
  "httpGetResult (demo_cycle\<lparr>httpGetResult := Some demo_error\<rparr>) = Some demo_error \<and>
   monitorHealthAndMetrics ''UP'' demo_config (demo_cycle\<lparr>httpGetResult := Some demo_error\<rparr>) =
     \<lparr>mainTrace =
        [HttpGet ''https://example.org'',
         LogLine ''No internect connection available for monitoring. Skipping monitoring for now.''],
      spawned = []\<rparr>"
proof -
  have h: "httpGetResult (demo_cycle\<lparr>httpGetResult := Some demo_error\<rparr>) = Some demo_error"
    by simp
  show ?thesis
    using h no_connectivity_skips_cycle [OF h, of "''UP''" demo_config]
    by (simp add: demo_config_def cycle_trace.equality)
qed

text \<open>
  Claim C8. With desktop alerts off and mail alerts on, \<^verbatim>\<open>handleAlert\<close> on a critical,
  mail-worthy decision runs neither \<^verbatim>\<open>notify-send\<close> nor \<^verbatim>\<open>gst-play-1.0\<close>, and sends exactly
  one mail: to the configured recipients, with the subject
  \<^verbatim>\<open>Spring Boot App Monitor - <URL>\<close> and the message as its plain-text body.
\<close>

theorem critical_mail_only_dispatch:
  assumes "\<not> IsDesktopAlertsEnabled config" and "IsEmailAlertsEnabled config"
  shows "commands (handleAlert config w appBaseUrl msgContent True True) = [] \<and>
         mails (handleAlert config w appBaseUrl msgContent True True) =
           [(MailDialer config\<lparr>InsecureSkipVerify := True\<rparr>,
             \<lparr>header = [(''From'', [smtpUser w]), (''To'', EmailReceipients config),
                        (''Subject'', [''Spring Boot App Monitor - '' @ appBaseUrl])],
              body = (''text/plain'', msgContent)\<rparr>)]"
  using assms
  by (simp add: handleAlert_def sendEmail_def split: option.splits)

theorem critical_mail_only_dispatch_witness:
  "\<not> IsDesktopAlertsEnabled demo_config \<and> IsEmailAlertsEnabled demo_config \<and>
   commands (handleAlert demo_config demo_obs ''http://app2:8080'' ''down'' True True) = [] \<and>
   length (mails (handleAlert demo_config demo_obs ''http://app2:8080'' ''down'' True True)) = 1"
proof -
  have d: "\<not> IsDesktopAlertsEnabled demo_config"
    by (simp add: demo_config_def)
  have e: "IsEmailAlertsEnabled demo_config"
    by (simp add: demo_config_def)
  show ?thesis
    using d e critical_mail_only_dispatch [OF d e, of demo_obs "''http://app2:8080''" "''down''"]
    by simp
qed

lemma monitorLoop_main_decisions: "decisions (fst (monitorLoop up config ws i urls)) = []"
proof (induction urls arbitrary: i)
  case Nil
  show ?case by simp
next
  case (Cons u urls)
  obtain evs ts where r: "monitorLoop up config ws (Suc i) urls = (evs, ts)"
    by (cases "monitorLoop up config ws (Suc i) urls")
  have "decisions evs = []"
    using Cons.IH [of "Suc i"] r by simp
  then show ?case
    by (simp add: r Let_def decisions_append)
qed

text \<open>
  Claim C9, as amended. For a fixed configuration, evaluating the same metrics of a
  healthy target twice gives the same two flags both times and, after the time stamp
  \<^verbatim>\<open>[HH:MM]\<close> that opens every message, the same message; the flags depend on the
  thresholds and the metrics only, the message also on the clock.
\<close>

theorem threshold_decision_up_to_clock:
  assumes "healthResult w = (up, None)" and "metricsResult w = (metrics, None)"
    and "healthResult w' = (up, None)" and "metricsResult w' = (metrics, None)"
  shows "\<exists>a rest.
           decisions (monitorTarget up config w baseUrl) =
             [\<lparr>decUrl = baseUrl, decMsg = ''['' @ clock w @ '']'' @ rest,
               decIsAlert = a, decSendMail = a\<rparr>] \<and>
           decisions (monitorTarget up config w' baseUrl) =
             [\<lparr>decUrl = baseUrl, decMsg = ''['' @ clock w' @ '']'' @ rest,
               decIsAlert = a, decSendMail = a\<rparr>]"
proof (cases "f64_gt (f64_mul (CpuUsage metrics) (CpuCount metrics))
                (f64_of_uint32 (CpuUsageWarnThreshold config)) \<or>
              f64_gt (MemoryTotal metrics) (f64_of_nat 0) \<and>
              f64_gt (f64_mul (f64_div (MemoryUsed metrics) (MemoryTotal metrics)) (f64_of_nat 100))
                (f64_of_uint32 (JvmUsageWarnThreshold config))")
  case True
  let ?rest = "'' Attention required! CPU: '' @
               fmt_f 2 (f64_mul (CpuUsage metrics) (CpuCount metrics)) @
               ''%, JVM: '' @ fmt_f 1 (MemoryUsed metrics) @ ''/'' @
               fmt_f 1 (MemoryTotal metrics) @ '' GB''"
  have "decisions (monitorTarget up config w baseUrl) =
          [\<lparr>decUrl = baseUrl, decMsg = ''['' @ clock w @ '']'' @ ?rest,
            decIsAlert = True, decSendMail = True\<rparr>]"
    using True assms(1,2)
    by (auto simp add: monitorTarget_def decisions_handleAlert Let_def simp del: One_nat_def)
  moreover have "decisions (monitorTarget up config w' baseUrl) =
          [\<lparr>decUrl = baseUrl, decMsg = ''['' @ clock w' @ '']'' @ ?rest,
            decIsAlert = True, decSendMail = True\<rparr>]"
    using True assms(3,4)
    by (auto simp add: monitorTarget_def decisions_handleAlert Let_def simp del: One_nat_def)
  ultimately show ?thesis
    by blast
next
  case False
  let ?rest = "'' CPU: '' @
               fmt_f 2 (f64_mul (CpuUsage metrics) (CpuCount metrics)) @
               ''%, JVM: '' @ fmt_f 1 (MemoryUsed metrics) @ ''/'' @
               fmt_f 1 (MemoryTotal metrics) @ '' GB''"
  have "decisions (monitorTarget up config w baseUrl) =
          [\<lparr>decUrl = baseUrl, decMsg = ''['' @ clock w @ '']'' @ ?rest,
            decIsAlert = False, decSendMail = False\<rparr>]"
    using False assms(1,2)
    by (auto simp add: monitorTarget_def decisions_handleAlert Let_def simp del: One_nat_def)
  moreover have "decisions (monitorTarget up config w' baseUrl) =
          [\<lparr>decUrl = baseUrl, decMsg = ''['' @ clock w' @ '']'' @ ?rest,
            decIsAlert = False, decSendMail = False\<rparr>]"
    using False assms(3,4)
    by (auto simp add: monitorTarget_def decisions_handleAlert Let_def simp del: One_nat_def)
  ultimately show ?thesis
    by blast
qed

theorem threshold_decision_up_to_clock_witness:
  "healthResult demo_obs = (''UP'', None) \<and>
   metricsResult demo_obs = (demo_metrics, None) \<and>
   healthResult (demo_obs\<lparr>clock := ''10:01''\<rparr>) = (''UP'', None) \<and>
   metricsResult (demo_obs\<lparr>clock := ''10:01''\<rparr>) = (demo_metrics, None) \<and>
   map (\<lambda>d. (decIsAlert d, decSendMail d, drop 7 (decMsg d)))
     (decisions (monitorTarget ''UP'' demo_config demo_obs ''http://app1:8080'')) =
   map (\<lambda>d. (decIsAlert d, decSendMail d, drop 7 (decMsg d)))
     (decisions
        (monitorTarget ''UP'' demo_config (demo_obs\<lparr>clock := ''10:01''\<rparr>) ''http://app1:8080''))"
proof -
  have h: "healthResult demo_obs = (''UP'', None)"
    by (simp add: demo_obs_def)
  have m: "metricsResult demo_obs = (demo_metrics, None)"
    by (simp add: demo_obs_def)
  have h': "healthResult (demo_obs\<lparr>clock := ''10:01''\<rparr>) = (''UP'', None)"
    by (simp add: demo_obs_def)
  have m': "metricsResult (demo_obs\<lparr>clock := ''10:01''\<rparr>) = (demo_metrics, None)"
    by (simp add: demo_obs_def)
  have c: "clock demo_obs = ''10:00''" "clock (demo_obs\<lparr>clock := ''10:01''\<rparr>) = ''10:01''"
    by (simp_all add: demo_obs_def)
  show ?thesis
    using h m h' m' c
      threshold_decision_up_to_clock [OF h m h' m', of demo_config "''http://app1:8080''"]
    by auto
qed

text \<open>
  The claim as the specification states it (the same message both times, as a function
  of the thresholds and the metrics only) fails: the message starts with the time of
  the evaluation, so the same configuration and the same metrics give two different
  messages at 10:00 and at 10:01.
\<close>

theorem threshold_message_depends_on_clock:
  "metricsResult (demo_obs\<lparr>clock := ''10:01''\<rparr>) = metricsResult demo_obs \<and>
   decisions (monitorTarget ''UP'' demo_config demo_obs ''http://app1:8080'') =
     [\<lparr>decUrl = ''http://app1:8080'', decMsg = ''[10:00] CPU: 1.00%, JVM: 1.0/4.0 GB'',
       decIsAlert = False, decSendMail = False\<rparr>] \<and>
   decisions
     (monitorTarget ''UP'' demo_config (demo_obs\<lparr>clock := ''10:01''\<rparr>) ''http://app1:8080'') =
     [\<lparr>decUrl = ''http://app1:8080'', decMsg = ''[10:01] CPU: 1.00%, JVM: 1.0/4.0 GB'',
       decIsAlert = False, decSendMail = False\<rparr>] \<and>
   decisions (monitorTarget ''UP'' demo_config demo_obs ''http://app1:8080'') \<noteq>
   decisions
     (monitorTarget ''UP'' demo_config (demo_obs\<lparr>clock := ''10:01''\<rparr>) ''http://app1:8080'')"
proof -
  have a: "decisions (monitorTarget ''UP'' demo_config demo_obs ''http://app1:8080'') =
     [\<lparr>decUrl = ''http://app1:8080'', decMsg = ''[10:00] CPU: 1.00%, JVM: 1.0/4.0 GB'',
       decIsAlert = False, decSendMail = False\<rparr>]"
    by (rule demo_decisions)
  have b: "decisions
     (monitorTarget ''UP'' demo_config (demo_obs\<lparr>clock := ''10:01''\<rparr>) ''http://app1:8080'') =
     [\<lparr>decUrl = ''http://app1:8080'', decMsg = ''[10:01] CPU: 1.00%, JVM: 1.0/4.0 GB'',
       decIsAlert = False, decSendMail = False\<rparr>]"
    using demo_thresholds
    by (simp add: monitorTarget_def decisions_handleAlert demo_obs_def del: One_nat_def)
      (simp add: demo_metrics_def f64_half_times_2 fmt_1_00 fmt_1_0 fmt_4_0 del: One_nat_def)
  show ?thesis
    by (simp add: a b)
qed

text \<open>
  Claim C10. Every alert decision of a cycle has two equal flags: each call of
  \<^verbatim>\<open>handleAlert\<close> in a goroutine passes \<open>(true, true)\<close> or \<open>(false, false)\<close>, and the cycle
  itself calls \<^verbatim>\<open>handleAlert\<close> nowhere else.
\<close>

theorem flags_always_equal:
  "map decIsAlert (concat (map decisions (spawned (monitorHealthAndMetrics up config cw)))) =
   map decSendMail (concat (map decisions (spawned (monitorHealthAndMetrics up config cw)))) \<and>
   decisions (mainTrace (monitorHealthAndMetrics up config cw)) = []"
proof (cases "httpGetResult cw")
  case None
  have "mainTrace (monitorHealthAndMetrics up config cw) =
          HttpGet (TestConnectivityUrl config) #
          fst (monitorLoop up config (goroutine cw) 0 (UrlsToMonitor config))"
    using None
    by (simp add: monitorHealthAndMetrics_def hasInternetConnection_def split: prod.splits)
  then show ?thesis
    using None
    by (simp add: spawned_connected monitorLoop_decision_flags monitorLoop_main_decisions)
next
  case (Some err)
  then show ?thesis
    by (simp add: monitorHealthAndMetrics_def hasInternetConnection_def)
qed

theorem flags_always_equal_witness:
  "map (\<lambda>d. (decIsAlert d, decSendMail d))
     (concat (map decisions (spawned (monitorHealthAndMetrics ''UP'' demo_config demo_cycle)))) =
     [(False, False), (True, True)] \<and>
   map decIsAlert
     (concat (map decisions (spawned (monitorHealthAndMetrics ''UP'' demo_config demo_cycle)))) =
   map decSendMail
     (concat (map decisions (spawned (monitorHealthAndMetrics ''UP'' demo_config demo_cycle))))"
proof -
  have "map (\<lambda>d. (decIsAlert d, decSendMail d))
     (concat (map decisions (spawned (monitorHealthAndMetrics ''UP'' demo_config demo_cycle)))) =
     [(False, False), (True, True)]"
    by (simp add: demo_cycle_spawned demo_decisions demo_down_decisions)
  then show ?thesis
    using flags_always_equal [of "''UP''" demo_config demo_cycle]
    by simp
qed

end
